theory Spec2Isabelle
  imports Complex_Main "HOL-Library.AList" "HOL-Library.Sublist"
begin

section \<open>Data model\<close>

text \<open>
  The point-of-sale terminal of \<^verbatim>\<open>src/src/components/POS/POSScreen.jsx\<close>, the scanner
  decoder and router of \<^verbatim>\<open>BarcodeContext\<close> (second document of
  \<^verbatim>\<open>src/src/context/SyncContext.jsx\<close>), the product form's decoder
  (\<^verbatim>\<open>src/unnamed/part_004\<close>) and the Firestore services of
  \<^verbatim>\<open>src/src/services/api.js\<close>.

  JavaScript numbers that carry money are modelled as exact reals (rounding to binary64 is
  not modelled); stock and cart quantities are integers; \<^verbatim>\<open>NaN\<close> is \<open>None\<close> where a
  number is parsed from a form field. An \<^verbatim>\<open>Error\<close> is its \<^verbatim>\<open>message\<close>, \<open>None\<close> when
  the message is undefined.
\<close>

type_synonym js_error = "string option"

text \<open>
  A product as \<^verbatim>\<open>productService.getAll/getById\<close> return it (the fields the modelled
  code reads). The field \<^verbatim>\<open>id\<close> is named \<open>id_p\<close>. A cart line is the same object with
  \<^verbatim>\<open>quantity\<close> overwritten: \<^verbatim>\<open>{ ...product, quantity: 1 }\<close>.
\<close>

record product =
  id_p :: string
  name :: string
  category_name :: string
  price :: real
  quantity :: int
  barcode :: string

record transaction_item =
  ti_productId :: string
  ti_name :: string
  ti_category :: string
  ti_price :: real
  ti_quantity :: int
  ti_subtotal :: real

datatype payment_method = Cash | Card | GCash

text \<open>The transaction id \<^verbatim>\<open>`TXN-${Date.now()}`\<close> is \<open>TXN n\<close> for the clock reading \<open>n\<close>.\<close>

datatype txn_id = TXN int

record transaction_data =
  tx_id :: txn_id
  tx_timestamp :: string
  tx_items :: "transaction_item list"
  tx_subtotal :: real
  tx_tax :: real
  tx_total :: real
  tx_paymentMethod :: payment_method
  tx_receivedAmount :: real
  tx_change :: real
  tx_referenceNumber :: "string option"

record clock =
  nowMs :: int
  nowIso :: string

subsection \<open>The stores behind \<^verbatim>\<open>services/api.js\<close>\<close>

text \<open>
  The Firestore collections are association lists from document id to document, in the
  order \<^verbatim>\<open>getDocs\<close> lists them. A Firestore call can fail for reasons outside the
  program (network, permissions): \<open>fault\<close> gives the error a request meets, if any.
\<close>

datatype request = ReadProduct string | WriteProduct string | ListProducts | WriteTransaction

record backend =
  productDocs :: "(string \<times> product) list"
  transactionDocs :: "(txn_id \<times> transaction_data) list"
  fault :: "request \<Rightarrow> js_error option"

definition productService_getAll :: "backend \<Rightarrow> js_error + product list" where
  "productService_getAll b =
     (case fault b ListProducts of
        Some e \<Rightarrow> Inl e
      | None \<Rightarrow> Inr (map (\<lambda>(i, d). d\<lparr>id_p := i\<rparr>) (productDocs b)))"

definition productService_getById :: "backend \<Rightarrow> string \<Rightarrow> js_error + product" where
  "productService_getById b i =
     (case fault b (ReadProduct i) of
        Some e \<Rightarrow> Inl e
      | None \<Rightarrow>
          (case map_of (productDocs b) i of
             None \<Rightarrow> Inl (Some ''Product not found'')
           | Some d \<Rightarrow> Inr (d\<lparr>id_p := i\<rparr>)))"

text \<open>
  \<^verbatim>\<open>updateDoc\<close> rejects when the document does not exist. The payload
  \<^verbatim>\<open>{ ...product, category_name: product.category_name || product.category || '' }\<close> is
  the product itself: products carry no \<^verbatim>\<open>category\<close> field and \<open>category_name\<close> is a
  string.
\<close>

definition productService_update ::
  "backend \<Rightarrow> string \<Rightarrow> product \<Rightarrow> (js_error + product) \<times> backend" where
  "productService_update b i payload =
     (case fault b (WriteProduct i) of
        Some e \<Rightarrow> (Inl e, b)
      | None \<Rightarrow>
          (case map_of (productDocs b) i of
             None \<Rightarrow> (Inl (Some ''No document to update''), b)
           | Some d \<Rightarrow>
               (Inr (payload\<lparr>id_p := i\<rparr>),
                b\<lparr>productDocs := AList.update i payload (productDocs b)\<rparr>)))"

definition transactionService_create ::
  "backend \<Rightarrow> transaction_data \<Rightarrow> (js_error + transaction_data) \<times> backend" where
  "transactionService_create b t =
     (case fault b WriteTransaction of
        Some e \<Rightarrow> (Inl e, b)
      | None \<Rightarrow>
          (Inr t, b\<lparr>transactionDocs := AList.update (tx_id t) t (transactionDocs b)\<rparr>))"

subsection \<open>What the operator sees, and what the terminal asks of the stores\<close>

datatype message =
    CartIsEmpty
  | InsufficientPaymentAmount
  | EnterReferenceNumber
  | InsufficientStock int
  | ErrorCheckingStock
  | ErrorUpdatingQuantity
  | FailedToSaveTransaction
  | CannotConnectToServer
  | DatabaseError
  | TransactionFailed string
  | TransactionCompleted
  | FailedToLoadProducts
  | AddedToCart string
  | IsOutOfStock string
  | ErrorProcessingBarcode
  | ProductFound string
  | ProductFoundNavigating string
  | BarcodeNotFound string
  | ProductAlreadyExists string
  | NewBarcodeScanned string
  | BarcodeScannedSuccessfully

datatype effect =
    ToastError message
  | ToastSuccess message
  | GetProductById string
  | UpdateProduct string product
  | CreateTransaction transaction_data
  | GetAllProducts
  | NavigateToPos product
  | NavigateToAddProduct string

section \<open>The cart (\<^verbatim>\<open>POSScreen.jsx\<close>)\<close>

text \<open>
  The cart is React state. A handler reads \<^verbatim>\<open>cart\<close>, the value of the render that
  created the handler, and changes the state through an updater, which receives the
  state of the moment (\<^verbatim>\<open>prevCart\<close>). An operation that reads \<^verbatim>\<open>cart\<close> takes both
  lists: \<open>cartLines\<close> for what it reads and \<open>prevCart\<close> for what its updater receives. They
  are the same list when the call runs alone; \<open>prevCart\<close> is the newer one when another
  update of the cart has landed while the call awaited the product service.

  \<^verbatim>\<open>const cartItem = cart.find(item => item.id === product.id);
  const currentCartQuantity = cartItem ? cartItem.quantity : 0;\<close>
\<close>

definition currentCartQuantity :: "product list \<Rightarrow> string \<Rightarrow> int" where
  "currentCartQuantity cartLines i =
     (case find (\<lambda>item. id_p item = i) cartLines of
        Some cartItem \<Rightarrow> quantity cartItem
      | None \<Rightarrow> 0)"

text \<open>The updater handed to \<^verbatim>\<open>setCart\<close> by \<^verbatim>\<open>addToCart\<close>.\<close>

definition addToCart_updater :: "product \<Rightarrow> product list \<Rightarrow> product list" where
  "addToCart_updater product prevCart =
     (case find (\<lambda>item. id_p item = id_p product) prevCart of
        Some existingItem \<Rightarrow>
          map (\<lambda>item. if id_p item = id_p product
                       then item\<lparr>quantity := quantity item + 1\<rparr> else item) prevCart
      | None \<Rightarrow> prevCart @ [product\<lparr>quantity := 1\<rparr>])"

definition addToCart ::
  "backend \<Rightarrow> product list \<Rightarrow> product list \<Rightarrow> product \<Rightarrow> effect list \<times> product list" where
  "addToCart b cartLines prevCart product =
     (case productService_getById b (id_p product) of
        Inl error \<Rightarrow> ([GetProductById (id_p product), ToastError ErrorCheckingStock], prevCart)
      | Inr currentProduct \<Rightarrow>
          if quantity currentProduct \<le> currentCartQuantity cartLines (id_p product)
          then ([GetProductById (id_p product),
                 ToastError (InsufficientStock (quantity currentProduct))], prevCart)
          else ([GetProductById (id_p product)], addToCart_updater product prevCart))"

definition removeFromCart :: "product list \<Rightarrow> string \<Rightarrow> product list" where
  "removeFromCart prevCart productId = filter (\<lambda>item. id_p item \<noteq> productId) prevCart"

definition updateQuantity ::
  "backend \<Rightarrow> product list \<Rightarrow> string \<Rightarrow> int \<Rightarrow> effect list \<times> product list" where
  "updateQuantity b prevCart productId newQuantity =
     (if newQuantity < 1 then ([], removeFromCart prevCart productId)
      else
        (case productService_getById b productId of
           Inl error \<Rightarrow> ([GetProductById productId, ToastError ErrorUpdatingQuantity], prevCart)
         | Inr product \<Rightarrow>
             if quantity product < newQuantity
             then ([GetProductById productId,
                    ToastError (InsufficientStock (quantity product))], prevCart)
             else ([GetProductById productId],
                   map (\<lambda>item. if id_p item = productId
                                then item\<lparr>quantity := newQuantity\<rparr> else item) prevCart)))"

text \<open>
  A session at the cart. Each step is an operation together with the state of the stores
  when it runs (other terminals write to them in between) and the cart its handler reads,
  which only \<open>addToCart\<close> looks at and which need not be the cart of the moment.
\<close>

datatype cart_op =
    AddToCart product
  | UpdateQuantity string int
  | RemoveFromCart string

fun applyCartOp :: "product list \<Rightarrow> backend \<times> product list \<times> cart_op \<Rightarrow> product list" where
  "applyCartOp prevCart (b, cartLines, AddToCart product) =
     snd (addToCart b cartLines prevCart product)"
| "applyCartOp prevCart (b, cartLines, UpdateQuantity productId newQuantity) =
     snd (updateQuantity b prevCart productId newQuantity)"
| "applyCartOp prevCart (b, cartLines, RemoveFromCart productId) =
     removeFromCart prevCart productId"

definition runCartOps ::
  "(backend \<times> product list \<times> cart_op) list \<Rightarrow> product list \<Rightarrow> product list" where
  "runCartOps steps prevCart = foldl applyCartOp prevCart steps"


section \<open>Totals and checkout (\<^verbatim>\<open>POSScreen.jsx\<close>)\<close>

text \<open>
  \<^verbatim>\<open>parseFloat(item.price || 0)\<close> on a price that is a number: \<open>0\<close> for a zero price,
  the price itself otherwise.
\<close>

definition parsePrice :: "real \<Rightarrow> real" where
  "parsePrice p = (if p = 0 then 0 else p)"

definition calculateSubtotal :: "product list \<Rightarrow> real" where
  "calculateSubtotal cartLines =
     foldl (\<lambda>total item. total + parsePrice (price item) * real_of_int (quantity item)) 0 cartLines"

definition calculateTax :: "real \<Rightarrow> real" where
  "calculateTax subtotal = subtotal * (12 / 100)"

definition calculateTotal :: "product list \<Rightarrow> real" where
  "calculateTotal cartLines =
     (let subtotal = calculateSubtotal cartLines in subtotal + calculateTax subtotal)"

text \<open>
  \<^verbatim>\<open>String.prototype.trim\<close> and \<^verbatim>\<open>String.prototype.includes\<close>. Strings are lists of
  characters with codes below 256; \<^verbatim>\<open>trim\<close> strips the white space and line terminators
  of ECMAScript, which in that range are tab, line feed, vertical tab, form feed,
  carriage return, space and the no-break space U+00A0.
\<close>

definition isWhiteSpace :: "char \<Rightarrow> bool" where
  "isWhiteSpace c =
     (c = CHR 0x09 \<or> c = CHR 0x0A \<or> c = CHR 0x0B \<or> c = CHR 0x0C \<or> c = CHR 0x0D \<or>
      c = CHR 0x20 \<or> c = CHR 0xA0)"

definition trim :: "string \<Rightarrow> string" where
  "trim s = rev (dropWhile isWhiteSpace (rev (dropWhile isWhiteSpace s)))"

fun includes_str :: "string \<Rightarrow> string \<Rightarrow> bool" where
  "includes_str [] sub = (sub = [])"
| "includes_str (c # s) sub = (prefix sub (c # s) \<or> includes_str s sub)"

text \<open>
  The state of the sale screen. The amount field is an \<^verbatim>\<open><input type="number">\<close>: its
  value is the empty text (\<open>None\<close>: falsy, and \<^verbatim>\<open>parseFloat\<close> gives \<^verbatim>\<open>NaN\<close>) or a
  numeral, given here by the number \<^verbatim>\<open>parseFloat\<close> reads from it.
\<close>

record pos_state =
  cart :: "product list"
  products :: "product list"
  paymentMethod :: payment_method
  referenceNumber :: string
  receivedAmount :: "real option"
  showCheckout :: bool
  isProcessing :: bool
  manualBarcode :: string

definition getChange :: "pos_state \<Rightarrow> real" where
  "getChange st =
     (case receivedAmount st of
        Some r \<Rightarrow> r - calculateTotal (cart st)
      | None \<Rightarrow> 0)"

definition loadProducts :: "backend \<Rightarrow> pos_state \<Rightarrow> effect list \<times> pos_state" where
  "loadProducts b st =
     (case productService_getAll b of
        Inl error \<Rightarrow> ([GetAllProducts, ToastError FailedToLoadProducts], st)
      | Inr data \<Rightarrow> ([GetAllProducts], st\<lparr>products := data\<rparr>))"

text \<open>The \<^verbatim>\<open>catch\<close> block of \<^verbatim>\<open>handleCheckout\<close>: the message shown for an error.\<close>

definition classifyError :: "js_error \<Rightarrow> message" where
  "classifyError error =
     (case error of
        None \<Rightarrow> TransactionFailed ''Unknown error''
      | Some m \<Rightarrow>
          if includes_str m ''Failed to create transaction'' then FailedToSaveTransaction
          else if includes_str m ''Failed to fetch'' then CannotConnectToServer
          else if includes_str m ''database'' then DatabaseError
          else TransactionFailed (if m = [] then ''Unknown error'' else m))"

definition transactionItem :: "product \<Rightarrow> transaction_item" where
  "transactionItem item =
     \<lparr>ti_productId = id_p item,
      ti_name = name item,
      ti_category = (if category_name item \<noteq> [] then category_name item else ''Uncategorized''),
      ti_price = parsePrice (price item),
      ti_quantity = quantity item,
      ti_subtotal = parsePrice (price item) * real_of_int (quantity item)\<rparr>"

definition transactionData :: "clock \<Rightarrow> pos_state \<Rightarrow> real \<Rightarrow> transaction_data" where
  "transactionData clk st received =
     \<lparr>tx_id = TXN (nowMs clk),
      tx_timestamp = nowIso clk,
      tx_items = map transactionItem (cart st),
      tx_subtotal = calculateSubtotal (cart st),
      tx_tax = calculateTax (calculateSubtotal (cart st)),
      tx_total = calculateTotal (cart st),
      tx_paymentMethod = paymentMethod st,
      tx_receivedAmount = received,
      tx_change = (if paymentMethod st = Cash then getChange st else 0),
      tx_referenceNumber =
        (if paymentMethod st = Cash then None else Some (trim (referenceNumber st)))\<rparr>"

text \<open>
  One element of \<^verbatim>\<open>inventoryUpdates\<close>. \<^verbatim>\<open>cart.map(async (item) => ...)\<close> starts every
  task at once, so every \<^verbatim>\<open>getById\<close> is issued before any answer arrives; each task
  then writes \<^verbatim>\<open>{ ...currentProduct, quantity: Math.max(0, newQuantity) }\<close> when its own
  read has answered, and fails with the read's error otherwise.
\<close>

definition decrementPayload :: "product \<Rightarrow> product \<Rightarrow> product" where
  "decrementPayload item currentProduct =
     (let newQuantity = quantity currentProduct - quantity item
      in currentProduct\<lparr>quantity := max 0 newQuantity\<rparr>)"

fun applyInventoryUpdates ::
  "backend \<Rightarrow> (product \<times> (js_error + product)) list \<Rightarrow>
   effect list \<times> (js_error + product) list \<times> backend" where
  "applyInventoryUpdates b [] = ([], [], b)"
| "applyInventoryUpdates b ((item, Inl error) # rest) =
     (case applyInventoryUpdates b rest of
        (effects, results, b') \<Rightarrow> (effects, Inl error # results, b'))"
| "applyInventoryUpdates b ((item, Inr currentProduct) # rest) =
     (case productService_update b (id_p item) (decrementPayload item currentProduct) of
        (result, b1) \<Rightarrow>
          (case applyInventoryUpdates b1 rest of
             (effects, results, b') \<Rightarrow>
               (UpdateProduct (id_p item) (decrementPayload item currentProduct) # effects,
                result # results, b')))"

definition inventoryUpdates ::
  "backend \<Rightarrow> product list \<Rightarrow> effect list \<times> (js_error + product) list \<times> backend" where
  "inventoryUpdates b cartLines =
     (case applyInventoryUpdates b
             (map (\<lambda>item. (item, productService_getById b (id_p item))) cartLines) of
        (effects, results, b') \<Rightarrow>
          (map (\<lambda>item. GetProductById (id_p item)) cartLines @ effects, results, b'))"

text \<open>\<^verbatim>\<open>Promise.all\<close> rejects with an error of a task that failed (here the first in cart order).\<close>

fun firstRejection :: "(js_error + product) list \<Rightarrow> js_error option" where
  "firstRejection [] = None"
| "firstRejection (Inl error # rest) = Some error"
| "firstRejection (Inr v # rest) = firstRejection rest"

text \<open>The \<^verbatim>\<open>try\<close> block of \<^verbatim>\<open>handleCheckout\<close>, with its \<^verbatim>\<open>catch\<close> and \<^verbatim>\<open>finally\<close>.\<close>

definition processTransaction ::
  "clock \<Rightarrow> backend \<Rightarrow> pos_state \<Rightarrow> real \<Rightarrow> effect list \<times> pos_state \<times> backend" where
  "processTransaction clk b st received =
     (let tx = transactionData clk st received in
      case transactionService_create b tx of
        (Inl error, b1) \<Rightarrow>
          ([CreateTransaction tx, ToastError (classifyError error)],
           st\<lparr>isProcessing := False\<rparr>, b1)
      | (Inr savedTransaction, b1) \<Rightarrow>
          (case inventoryUpdates b1 (cart st) of
             (effects, results, b2) \<Rightarrow>
               (case firstRejection results of
                  Some error \<Rightarrow>
                    (CreateTransaction tx # effects @ [ToastError (classifyError error)],
                     st\<lparr>isProcessing := False\<rparr>, b2)
                | None \<Rightarrow>
                    (case loadProducts b2 st of
                       (loadEffects, st1) \<Rightarrow>
                         (CreateTransaction tx # effects @ loadEffects @
                            [ToastSuccess TransactionCompleted],
                          st1\<lparr>cart := [], showCheckout := False, receivedAmount := None,
                              referenceNumber := [], isProcessing := False\<rparr>, b2)))))"

definition handleCheckout ::
  "clock \<Rightarrow> backend \<Rightarrow> pos_state \<Rightarrow> effect list \<times> pos_state \<times> backend" where
  "handleCheckout clk b st =
     (if cart st = [] then ([ToastError CartIsEmpty], st, b)
      else
        (let total = calculateTotal (cart st); received = receivedAmount st in
         if paymentMethod st = Cash then
           (case received of
              None \<Rightarrow> ([ToastError InsufficientPaymentAmount], st, b)
            | Some r \<Rightarrow>
                if r = 0 \<or> r < total then ([ToastError InsufficientPaymentAmount], st, b)
                else processTransaction clk b st r)
         else if trim (referenceNumber st) = [] then ([ToastError EnterReferenceNumber], st, b)
         else processTransaction clk b st total))"


section \<open>Reading the effects of a checkout\<close>

text \<open>
  What a list of effects holds of each kind of store request: the transactions written,
  the products re-fetched by id, and the product writes with their payloads.
\<close>

fun transactionWrite :: "effect \<Rightarrow> transaction_data list" where
  "transactionWrite (CreateTransaction t) = [t]"
| "transactionWrite e = []"

fun inventoryRead :: "effect \<Rightarrow> string list" where
  "inventoryRead (GetProductById i) = [i]"
| "inventoryRead e = []"

fun inventoryWrite :: "effect \<Rightarrow> (string \<times> product) list" where
  "inventoryWrite (UpdateProduct i payload) = [(i, payload)]"
| "inventoryWrite e = []"

definition transactionWrites :: "effect list \<Rightarrow> transaction_data list" where
  "transactionWrites effects = concat (map transactionWrite effects)"

definition inventoryReads :: "effect list \<Rightarrow> string list" where
  "inventoryReads effects = concat (map inventoryRead effects)"

definition inventoryWrites :: "effect list \<Rightarrow> (string \<times> product) list" where
  "inventoryWrites effects = concat (map inventoryWrite effects)"

section \<open>Barcode lookup\<close>

text \<open>
  \<^verbatim>\<open>products.find(p => p.barcode === barcode || p.barcode?.toString() === barcode ||
  p.id?.toString() === barcode)\<close>, on products whose \<^verbatim>\<open>barcode\<close> and \<^verbatim>\<open>id\<close> are
  strings, as the product service returns them.
\<close>

definition matchesBarcode :: "string \<Rightarrow> product \<Rightarrow> bool" where
  "matchesBarcode code p = (barcode p = code \<or> barcode p = code \<or> id_p p = code)"

definition findProduct :: "product list \<Rightarrow> string \<Rightarrow> product option" where
  "findProduct ps code = find (matchesBarcode code) ps"

definition handleBarcodeScanned ::
  "backend \<Rightarrow> product list \<Rightarrow> product list \<Rightarrow> product \<Rightarrow> effect list \<times> product list" where
  "handleBarcodeScanned b cartLines prevCart product =
     (case productService_getById b (id_p product) of
        Inl error \<Rightarrow>
          ([GetProductById (id_p product), ToastError ErrorProcessingBarcode], prevCart)
      | Inr currentProduct \<Rightarrow>
          if quantity currentProduct > 0 then
            (case addToCart b cartLines prevCart currentProduct of
               (effects, cart') \<Rightarrow>
                 (GetProductById (id_p product) # effects @
                    [ToastSuccess (AddedToCart (name currentProduct))], cart'))
          else ([GetProductById (id_p product), ToastError (IsOutOfStock (name currentProduct))],
                prevCart))"

definition handleManualBarcodeSubmit :: "backend \<Rightarrow> pos_state \<Rightarrow> effect list \<times> pos_state" where
  "handleManualBarcodeSubmit b st =
     (if trim (manualBarcode st) = [] then ([], st)
      else
        (case findProduct (products st) (trim (manualBarcode st)) of
           Some product \<Rightarrow>
             (case handleBarcodeScanned b (cart st) (cart st) product of
                (effects, cart') \<Rightarrow> (effects, st\<lparr>cart := cart', manualBarcode := []\<rparr>))
         | None \<Rightarrow> ([ToastError (BarcodeNotFound (manualBarcode st))], st)))"

text \<open>
  The lookup as the specification words it: the first product whose barcode equals the
  token, and the product id only when no barcode matches.
\<close>

definition spec_lookup :: "product list \<Rightarrow> string \<Rightarrow> product option" where
  "spec_lookup ps code =
     (case find (\<lambda>p. barcode p = code) ps of
        Some p \<Rightarrow> Some p
      | None \<Rightarrow> find (\<lambda>p. id_p p = code) ps)"

section \<open>The scanner decoder and router (\<^verbatim>\<open>BarcodeContext\<close>)\<close>

text \<open>
  A \<^verbatim>\<open>keydown\<close> event: \<^verbatim>\<open>event.key\<close> and what the handlers read of
  \<^verbatim>\<open>event.target\<close>. \<open>isBarcodeInput\<close> says that the target is the product form's
  barcode field (\<^verbatim>\<open>barcodeInputRef.current\<close>).
\<close>

record key_target =
  tagName :: string
  isContentEditable :: bool
  role :: "string option"
  isBarcodeInput :: bool

record key_event =
  key :: string
  target :: key_target

text \<open>
  The inactivity timer a handler has armed and that has neither fired nor been cleared:
  \<^verbatim>\<open>clearTimeout\<close> and firing both leave \<open>None\<close>. The callback armed by
  \<^verbatim>\<open>handleKeyDown\<close> hands its token to \<^verbatim>\<open>processBarcodeData\<close>, the one armed by
  \<^verbatim>\<open>handleInventoryKeyDown\<close> to \<^verbatim>\<open>handleInventoryBarcode\<close>; both wait 150 ms.
\<close>

datatype pending_timer = AutoSubmit | InventoryAutoSubmit

record scanner =
  suspendedCountRef :: int
  bufferRef :: string
  timeoutRef :: "pending_timer option"
  isProcessingRef :: bool
  resetTimers :: nat
  lastProcessedRef :: string
  lastProcessedTimeRef :: int
  scanProducts :: "product list"
  barcodeData :: "(string \<times> product \<times> int) option"
  pathname :: string

definition suspendScanning :: "scanner \<Rightarrow> scanner" where
  "suspendScanning st = st\<lparr>suspendedCountRef := suspendedCountRef st + 1\<rparr>"

definition resumeScanning :: "scanner \<Rightarrow> scanner" where
  "resumeScanning st = st\<lparr>suspendedCountRef := max 0 (suspendedCountRef st - 1)\<rparr>"

definition isEditableTarget :: "key_target \<Rightarrow> bool" where
  "isEditableTarget t =
     (tagName t = ''INPUT'' \<or> tagName t = ''TEXTAREA'' \<or> isContentEditable t \<or>
      role t = Some ''textbox'')"

text \<open>\<^verbatim>\<open>/^[a-zA-Z0-9\-_.]$/.test(event.key)\<close> and \<^verbatim>\<open>/^[a-zA-Z0-9]$/.test(event.key)\<close>.\<close>

definition isAlnumKey :: "string \<Rightarrow> bool" where
  "isAlnumKey k =
     (case k of
        [c] \<Rightarrow>
          c \<in> set (''abcdefghijklmnopqrstuvwxyz'' @ ''ABCDEFGHIJKLMNOPQRSTUVWXYZ'' @ ''0123456789'')
      | _ \<Rightarrow> False)"

definition isBarcodeKey :: "string \<Rightarrow> bool" where
  "isBarcodeKey k = (isAlnumKey k \<or> k = ''-'' \<or> k = ''_'' \<or> k = ''.'')"

text \<open>
  The decoders return the token they hand to their resolution handler (\<open>Some barcode\<close>
  is the call \<^verbatim>\<open>processBarcodeData(barcode)\<close> or \<^verbatim>\<open>handleInventoryBarcode(barcode)\<close>);
  \<open>handleGlobalKeyDown\<close> and \<open>timeoutFired\<close> below make the call. The handlers touch
  neither the buffer nor the inactivity timer, so clearing the buffer after the call, as
  the source does, and before it give the same state.
\<close>

definition handleKeyDown :: "scanner \<Rightarrow> key_event \<Rightarrow> string option \<times> scanner" where
  "handleKeyDown st event =
     (if suspendedCountRef st > 0 then (None, st)
      else if isEditableTarget (target event) then (None, st)
      else if pathname st = ''/inventory'' then (None, st)
      else if isProcessingRef st then (None, st)
      else if length (key event) > 1 \<and> key event \<noteq> ''Enter'' then (None, st)
      else
        (let st1 = st\<lparr>timeoutRef := None\<rparr> in
         if key event = ''Enter'' then
           (let code = trim (bufferRef st1) in
            (if length code \<ge> 4 then Some code else None, st1\<lparr>bufferRef := []\<rparr>))
         else if isBarcodeKey (key event) then
           (None, st1\<lparr>bufferRef := bufferRef st1 @ key event, timeoutRef := Some AutoSubmit\<rparr>)
         else (None, st1)))"

definition handleInventoryKeyDown :: "scanner \<Rightarrow> key_event \<Rightarrow> string option \<times> scanner" where
  "handleInventoryKeyDown st event =
     (if suspendedCountRef st > 0 then (None, st)
      else if isEditableTarget (target event) then (None, st)
      else if isProcessingRef st then (None, st)
      else if length (key event) > 1 \<and> key event \<noteq> ''Enter'' then (None, st)
      else
        (let st1 = st\<lparr>timeoutRef := None\<rparr> in
         if key event = ''Enter'' then
           (let code = trim (bufferRef st1) in
            (if length code \<ge> 4 then Some code else None, st1\<lparr>bufferRef := []\<rparr>))
         else if isBarcodeKey (key event) then
           (None, st1\<lparr>bufferRef := bufferRef st1 @ key event,
                      timeoutRef := Some InventoryAutoSubmit\<rparr>)
         else (None, st1)))"

text \<open>The callback of the inactivity timer (the same text in both handlers).\<close>

definition autoSubmit :: "scanner \<Rightarrow> string option \<times> scanner" where
  "autoSubmit st =
     (let code = trim (bufferRef st) in
      (if length code \<ge> 4 then Some code else None, st\<lparr>bufferRef := [], timeoutRef := None\<rparr>))"

text \<open>
  \<^verbatim>\<open>processBarcodeData\<close> at the clock reading \<open>now\<close>. It has no \<^verbatim>\<open>await\<close>: it runs to its
  end when called. Its \<^verbatim>\<open>finally\<close> arms a 300 ms timer that resets the in-flight flag
  (\<open>resetTimers\<close> counts the armed ones, \<open>processingReset\<close> is one firing). \<^verbatim>\<open>navigate\<close>
  changes \<^verbatim>\<open>location.pathname\<close>.
\<close>

definition duplicateTimeout :: "scanner \<Rightarrow> int" where
  "duplicateTimeout st = (if pathname st = ''/pos'' then 500 else 2000)"

definition processBarcodeData :: "int \<Rightarrow> scanner \<Rightarrow> string \<Rightarrow> effect list \<times> scanner" where
  "processBarcodeData now st code =
     (if isProcessingRef st \<or>
         (lastProcessedRef st = code \<and> now - lastProcessedTimeRef st < duplicateTimeout st)
      then ([], st)
      else
        (let st1 = st\<lparr>isProcessingRef := True, lastProcessedRef := code,
                       lastProcessedTimeRef := now, resetTimers := resetTimers st + 1\<rparr> in
         case findProduct (scanProducts st1) code of
           Some product \<Rightarrow>
             if quantity product \<le> 0 then ([ToastError (IsOutOfStock (name product))], st1)
             else if pathname st1 \<noteq> ''/pos'' then
               ([ToastSuccess (ProductFoundNavigating (name product)), NavigateToPos product],
                st1\<lparr>pathname := ''/pos''\<rparr>)
             else
               ([ToastSuccess (ProductFound (name product))],
                st1\<lparr>barcodeData := Some (code, product, now)\<rparr>)
         | None \<Rightarrow> ([ToastError (BarcodeNotFound code)], st1)))"


definition handleInventoryBarcode :: "scanner \<Rightarrow> string \<Rightarrow> effect list \<times> scanner" where
  "handleInventoryBarcode st code =
     (case findProduct (scanProducts st) code of
        Some existingProduct \<Rightarrow> ([ToastError (ProductAlreadyExists (name existingProduct))], st)
      | None \<Rightarrow> ([ToastSuccess (NewBarcodeScanned code), NavigateToAddProduct code], st))"


definition timeoutFired :: "int \<Rightarrow> scanner \<Rightarrow> effect list \<times> scanner" where
  "timeoutFired now st =
     (case timeoutRef st of
        None \<Rightarrow> ([], st)
      | Some AutoSubmit \<Rightarrow>
          (case autoSubmit st of
             (None, st') \<Rightarrow> ([], st')
           | (Some code, st') \<Rightarrow> processBarcodeData now st' code)
      | Some InventoryAutoSubmit \<Rightarrow>
          (case autoSubmit st of
             (None, st') \<Rightarrow> ([], st')
           | (Some code, st') \<Rightarrow> handleInventoryBarcode st' code))"

section \<open>The product form's decoder (\<^verbatim>\<open>ProductModal\<close>, \<^verbatim>\<open>src/unnamed/part_004\<close>)\<close>

text \<open>
  \<open>barcodeTimeoutRef\<close> says whether the 100 ms timer is pending; \<open>formBarcode\<close> is
  \<^verbatim>\<open>formData.barcode\<close>, the field the decoder emits its token to.
\<close>

record product_form =
  isScanningBarcode :: bool
  barcodeBufferRef :: string
  barcodeTimeoutRef :: bool
  formBarcode :: string

text \<open>
  The updater \<^verbatim>\<open>prev => ({ ...prev, barcode: barcodeBufferRef.current.trim() })\<close> that the
  decoder gives to \<^verbatim>\<open>setFormData\<close>. React runs it when it processes the update, after
  the code that called \<^verbatim>\<open>setFormData\<close> has returned: it reads the buffer as that code
  left it.
\<close>

definition barcodeUpdater :: "product_form \<Rightarrow> product_form" where
  "barcodeUpdater st = st\<lparr>formBarcode := trim (barcodeBufferRef st)\<rparr>"

definition handleBarcodeKeyDown :: "product_form \<Rightarrow> key_event \<Rightarrow> effect list \<times> product_form" where
  "handleBarcodeKeyDown st event =
     (if \<not> isScanningBarcode st then ([], st)
      else if \<not> isBarcodeInput (target event) \<and>
              (tagName (target event) = ''INPUT'' \<or> tagName (target event) = ''TEXTAREA'')
      then ([], st)
      else
        (let st1 = st\<lparr>barcodeTimeoutRef := False\<rparr> in
         if key event = ''Enter'' then
           (if length (barcodeBufferRef st1) > 6 then
              ([ToastSuccess BarcodeScannedSuccessfully],
               barcodeUpdater (st1\<lparr>barcodeBufferRef := [], isScanningBarcode := False\<rparr>))
            else ([], st1))
         else if isAlnumKey (key event) then
           ([], st1\<lparr>barcodeBufferRef := barcodeBufferRef st1 @ key event,
                    barcodeTimeoutRef := True\<rparr>)
         else ([], st1)))"

text \<open>The callback of the form's 100 ms timer.\<close>

definition barcodeTimeoutFired :: "product_form \<Rightarrow> effect list \<times> product_form" where
  "barcodeTimeoutFired st =
     (if length (barcodeBufferRef st) > 6 then
        ([ToastSuccess BarcodeScannedSuccessfully],
         barcodeUpdater
           (st\<lparr>barcodeBufferRef := [], isScanningBarcode := False, barcodeTimeoutRef := False\<rparr>))
      else ([], st\<lparr>barcodeBufferRef := [], barcodeTimeoutRef := False\<rparr>))"

text \<open>
  \<^verbatim>\<open>toggleBarcodeScanning\<close>; the cleanup of the effect that depends on
  \<^verbatim>\<open>isScanningBarcode\<close> clears the pending timer.
\<close>

definition toggleBarcodeScanning :: "product_form \<Rightarrow> product_form" where
  "toggleBarcodeScanning st =
     st\<lparr>isScanningBarcode := \<not> isScanningBarcode st, barcodeBufferRef := [],
        barcodeTimeoutRef := False\<rparr>"

section \<open>Example data\<close>

definition exampleProduct :: product where
  "exampleProduct =
     \<lparr>id_p = ''p1'', name = ''Soap'', category_name = ''Home'', price = 100, quantity = 2,
      barcode = ''8991234567890''\<rparr>"

definition exampleBackend :: backend where
  "exampleBackend =
     \<lparr>productDocs = [(''p1'', exampleProduct)], transactionDocs = [], fault = (\<lambda>r. None)\<rparr>"

definition exampleClock :: clock where
  "exampleClock = \<lparr>nowMs = 1700000000000, nowIso = ''2023-11-14T22:13:20.000Z''\<rparr>"

definition exampleSale :: pos_state where
  "exampleSale =
     \<lparr>cart = [exampleProduct\<lparr>quantity := 2\<rparr>], products = [exampleProduct],
      paymentMethod = Cash, referenceNumber = [], receivedAmount = Some 300,
      showCheckout = True, isProcessing = False, manualBarcode = []\<rparr>"




definition offlineBackend :: backend where
  "offlineBackend =
     \<lparr>productDocs = [(''p1'', exampleProduct)], transactionDocs = [],
      fault = (\<lambda>r. if r = WriteTransaction then Some (Some ''TypeError: Failed to fetch'') else None)\<rparr>"

definition lowStockBackend :: backend where
  "lowStockBackend =
     \<lparr>productDocs = [(''p1'', exampleProduct\<lparr>quantity := 1\<rparr>)], transactionDocs = [],
      fault = (\<lambda>r. None)\<rparr>"

definition idMatchProduct :: product where
  "idMatchProduct =
     \<lparr>id_p = ''ABCD'', name = ''Tea'', category_name = ''Drinks'', price = 30, quantity = 5,
      barcode = ''1111''\<rparr>"

definition barcodeMatchProduct :: product where
  "barcodeMatchProduct =
     \<lparr>id_p = ''P2'', name = ''Rice'', category_name = ''Foods'', price = 60, quantity = 9,
      barcode = ''ABCD''\<rparr>"

definition bodyTarget :: key_target where
  "bodyTarget =
     \<lparr>tagName = ''BODY'', isContentEditable = False, role = None, isBarcodeInput = False\<rparr>"

definition exampleScanner :: scanner where
  "exampleScanner =
     \<lparr>suspendedCountRef = 0, bufferRef = ''12345'', timeoutRef = Some AutoSubmit,
      isProcessingRef = False, resetTimers = 0, lastProcessedRef = [],
      lastProcessedTimeRef = 0, scanProducts = [exampleProduct], barcodeData = None,
      pathname = ''/pos''\<rparr>"



definition exampleForm :: product_form where
  "exampleForm =
     \<lparr>isScanningBarcode = True, barcodeBufferRef = ''123'', barcodeTimeoutRef = True,
      formBarcode = []\<rparr>"



section \<open>Cart: stock check on add\<close>

lemma find_id_None: "find (\<lambda>item. id_p item = i) cartLines = None \<longleftrightarrow> i \<notin> id_p ` set cartLines"
  by (auto simp: find_None_iff)

lemma find_map_quantity:
  "find (\<lambda>item. id_p item = i)
     (map (\<lambda>item. if id_p item = i then item\<lparr>quantity := g item\<rparr> else item) cartLines) =
   map_option (\<lambda>item. item\<lparr>quantity := g item\<rparr>) (find (\<lambda>item. id_p item = i) cartLines)"
  by (induction cartLines) auto

lemma filter_other_map:
  "j \<noteq> i \<Longrightarrow>
   filter (\<lambda>item. id_p item = j)
     (map (\<lambda>item. if id_p item = i then item\<lparr>quantity := g item\<rparr> else item) cartLines) =
   filter (\<lambda>item. id_p item = j) cartLines"
  by (induction cartLines) auto

lemma map_id_map_quantity:
  "map id_p (map (\<lambda>item. if id_p item = i then item\<lparr>quantity := g item\<rparr> else item) cartLines) =
   map id_p cartLines"
  by (induction cartLines) auto

lemma id_comp_quantity:
  "(id_p \<circ> (\<lambda>item. if id_p item = i then item\<lparr>quantity := g item\<rparr> else item)) = id_p"
  by (rule ext) simp

lemma find_None_currentCartQuantity:
  "i \<notin> id_p ` set cartLines \<Longrightarrow> currentCartQuantity cartLines i = 0"
  by (simp add: currentCartQuantity_def find_id_None[symmetric])

lemma currentCartQuantity_append:
  "currentCartQuantity (cartLines @ [p]) j =
     (if j \<in> id_p ` set cartLines then currentCartQuantity cartLines j
      else if id_p p = j then quantity p else 0)"
  by (induction cartLines) (auto simp: currentCartQuantity_def)

lemma addToCart_updater_quantity:
  "currentCartQuantity (addToCart_updater product cartLines) (id_p product) =
   currentCartQuantity cartLines (id_p product) + 1"
proof (cases "find (\<lambda>item. id_p item = id_p product) cartLines")
  case None
  then have "id_p product \<notin> id_p ` set cartLines"
    by (simp add: find_id_None)
  with None show ?thesis
    by (simp add: addToCart_updater_def currentCartQuantity_append
        find_None_currentCartQuantity)
next
  case (Some line)
  then show ?thesis
    by (simp add: addToCart_updater_def currentCartQuantity_def find_map_quantity)
qed

lemma addToCart_updater_others:
  "j \<noteq> id_p product \<Longrightarrow>
   filter (\<lambda>item. id_p item = j) (addToCart_updater product cartLines) =
   filter (\<lambda>item. id_p item = j) cartLines"
  by (auto simp: addToCart_updater_def filter_other_map split: option.splits)

lemma addToCart_updater_new:
  "id_p product \<notin> id_p ` set cartLines \<Longrightarrow>
   addToCart_updater product cartLines = cartLines @ [product\<lparr>quantity := 1\<rparr>]"
  by (simp add: addToCart_updater_def find_id_None[symmetric])

lemma addToCart_updater_existing:
  "find (\<lambda>item. id_p item = id_p product) cartLines = Some line \<Longrightarrow>
   find (\<lambda>item. id_p item = id_p product) (addToCart_updater product cartLines) =
     Some (line\<lparr>quantity := quantity line + 1\<rparr>) \<and>
   map id_p (addToCart_updater product cartLines) = map id_p cartLines"
  by (simp add: addToCart_updater_def find_map_quantity map_id_map_quantity)

lemma addToCart_fetch_failed:
  "productService_getById b (id_p product) = Inl error \<Longrightarrow>
   addToCart b cartLines prevCart product =
     ([GetProductById (id_p product), ToastError ErrorCheckingStock], prevCart)"
  by (simp add: addToCart_def)

text \<open>
  What holds of a call that runs alone (its updater receives the cart the call read).
  When the re-fetch of the product answers with \<open>currentProduct\<close>, \<open>addToCart\<close>
  rejects with the insufficient-stock error and leaves the cart as it was exactly when
  \<open>quantity currentProduct\<close> is at most the quantity already on the product's cart line
  (\<open>0\<close> without a line). Otherwise it shows no error and raises that line's quantity by
  one: a product without a line gets a new last line of quantity \<open>1\<close>, an existing line
  keeps its place and its other fields, the lines of other products are untouched, and
  the line's new quantity does not exceed \<open>quantity currentProduct\<close>.
\<close>

theorem addToCart_stock_guard:
  assumes fetched: "productService_getById b (id_p product) = Inr currentProduct"
  shows
    "((addToCart b cartLines cartLines product =
        ([GetProductById (id_p product),
          ToastError (InsufficientStock (quantity currentProduct))], cartLines))
       = (quantity currentProduct \<le> currentCartQuantity cartLines (id_p product))) \<and>
     (currentCartQuantity cartLines (id_p product) < quantity currentProduct \<longrightarrow>
       fst (addToCart b cartLines cartLines product) = [GetProductById (id_p product)] \<and>
       currentCartQuantity (snd (addToCart b cartLines cartLines product)) (id_p product) =
         currentCartQuantity cartLines (id_p product) + 1 \<and>
       currentCartQuantity (snd (addToCart b cartLines cartLines product)) (id_p product)
         \<le> quantity currentProduct \<and>
       (\<forall>j. j \<noteq> id_p product \<longrightarrow>
          filter (\<lambda>item. id_p item = j) (snd (addToCart b cartLines cartLines product)) =
          filter (\<lambda>item. id_p item = j) cartLines) \<and>
       (id_p product \<notin> id_p ` set cartLines \<longrightarrow>
          snd (addToCart b cartLines cartLines product) = cartLines @ [product\<lparr>quantity := 1\<rparr>]) \<and>
       (\<forall>line. find (\<lambda>item. id_p item = id_p product) cartLines = Some line \<longrightarrow>
          find (\<lambda>item. id_p item = id_p product) (snd (addToCart b cartLines cartLines product)) =
            Some (line\<lparr>quantity := quantity line + 1\<rparr>) \<and>
          map id_p (snd (addToCart b cartLines cartLines product)) = map id_p cartLines))"
  using fetched
  by (auto simp: addToCart_def addToCart_updater_quantity addToCart_updater_others
      addToCart_updater_new addToCart_updater_existing)

theorem addToCart_stock_guard_witness:
  "productService_getById exampleBackend (id_p exampleProduct) = Inr exampleProduct \<and>
   addToCart exampleBackend [] [] exampleProduct =
     ([GetProductById ''p1''], [exampleProduct\<lparr>quantity := 1\<rparr>]) \<and>
   addToCart exampleBackend [exampleProduct\<lparr>quantity := 1\<rparr>]
       [exampleProduct\<lparr>quantity := 1\<rparr>] exampleProduct =
     ([GetProductById ''p1''], [exampleProduct\<lparr>quantity := 2\<rparr>]) \<and>
   addToCart exampleBackend [exampleProduct\<lparr>quantity := 2\<rparr>]
       [exampleProduct\<lparr>quantity := 2\<rparr>] exampleProduct =
     ([GetProductById ''p1'', ToastError (InsufficientStock 2)],
      [exampleProduct\<lparr>quantity := 2\<rparr>])"
proof -
  have fetched: "productService_getById exampleBackend (id_p exampleProduct) = Inr exampleProduct"
    by (simp add: productService_getById_def exampleBackend_def exampleProduct_def)
  show ?thesis
    using fetched
      addToCart_stock_guard [OF fetched, of "[]"]
      addToCart_stock_guard [OF fetched, of "[exampleProduct\<lparr>quantity := 1\<rparr>]"]
      addToCart_stock_guard [OF fetched, of "[exampleProduct\<lparr>quantity := 2\<rparr>]"]
    by (simp add: addToCart_def addToCart_updater_def currentCartQuantity_def
        exampleProduct_def)
qed

text \<open>
  Claim C1 fails on the code when two calls overlap. The handlers of both calls below
  were created by the same render, so both read the empty cart: a double click on a
  product card, the second call starting while the first awaits the product service.
  The product's authoritative quantity is \<open>1\<close>. The first call adds the line. The second
  compares \<open>1\<close> with the \<open>0\<close> of the cart it read and passes, and its updater, which
  receives the cart of the moment, raises the line to \<open>2\<close>. The claim has the second call
  rejected, since the line already holds \<open>1\<close>, and no line above the authoritative
  quantity; that is what the same call does when it reads the cart of the moment.
\<close>

theorem addToCart_overlapping_calls:
  "productService_getById lowStockBackend (id_p exampleProduct) =
     Inr (exampleProduct\<lparr>quantity := 1\<rparr>) \<and>
   addToCart lowStockBackend [] [] exampleProduct =
     ([GetProductById ''p1''], [exampleProduct\<lparr>quantity := 1\<rparr>]) \<and>
   addToCart lowStockBackend [] [exampleProduct\<lparr>quantity := 1\<rparr>] exampleProduct =
     ([GetProductById ''p1''], [exampleProduct\<lparr>quantity := 2\<rparr>]) \<and>
   runCartOps [(lowStockBackend, [], AddToCart exampleProduct),
               (lowStockBackend, [], AddToCart exampleProduct)] [] =
     [exampleProduct\<lparr>quantity := 2\<rparr>] \<and>
   addToCart lowStockBackend [exampleProduct\<lparr>quantity := 1\<rparr>]
       [exampleProduct\<lparr>quantity := 1\<rparr>] exampleProduct =
     ([GetProductById ''p1'', ToastError (InsufficientStock 1)],
      [exampleProduct\<lparr>quantity := 1\<rparr>])"
  by (simp add: runCartOps_def addToCart_def addToCart_updater_def currentCartQuantity_def
      productService_getById_def lowStockBackend_def exampleProduct_def)

section \<open>Cart: one line per product\<close>

lemma distinct_addToCart_updater:
  "distinct (map id_p prevCart) \<Longrightarrow> distinct (map id_p (addToCart_updater product prevCart))"
  by (auto simp: addToCart_updater_def id_comp_quantity find_id_None split: option.splits)

lemma distinct_removeFromCart:
  "distinct (map id_p prevCart) \<Longrightarrow> distinct (map id_p (removeFromCart prevCart i))"
  by (simp add: removeFromCart_def distinct_map_filter)

lemma distinct_addToCart:
  "distinct (map id_p prevCart) \<Longrightarrow>
   distinct (map id_p (snd (addToCart b cartLines prevCart product)))"
  by (auto simp: addToCart_def distinct_addToCart_updater split: sum.splits)

lemma distinct_updateQuantity:
  "distinct (map id_p prevCart) \<Longrightarrow>
   distinct (map id_p (snd (updateQuantity b prevCart i n)))"
  by (auto simp: updateQuantity_def distinct_removeFromCart id_comp_quantity
      split: sum.splits)

lemma distinct_applyCartOp:
  assumes d: "distinct (map id_p prevCart)"
  shows "distinct (map id_p (applyCartOp prevCart step))"
proof -
  obtain b cartLines operation where step: "step = (b, cartLines, operation)"
    by (cases step) auto
  show ?thesis
  proof (cases operation)
    case (AddToCart product)
    with step d show ?thesis by (simp add: distinct_addToCart)
  next
    case (UpdateQuantity i n)
    with step d show ?thesis by (simp add: distinct_updateQuantity)
  next
    case (RemoveFromCart i)
    with step d show ?thesis by (simp add: distinct_removeFromCart)
  qed
qed

lemma distinct_runCartOps:
  "distinct (map id_p prevCart) \<Longrightarrow> distinct (map id_p (runCartOps steps prevCart))"
  unfolding runCartOps_def
  by (induction steps arbitrary: prevCart) (simp_all add: distinct_applyCartOp)

text \<open>
  Claim C10. From the empty cart, after any sequence of \<open>addToCart\<close>, \<open>updateQuantity\<close>
  and \<open>removeFromCart\<close> (whatever the stores hold and answer at each step, and whatever
  cart each handler reads) the product ids of the cart lines are pairwise distinct; and
  \<open>updateQuantity\<close> with a new quantity below \<open>1\<close> is \<open>removeFromCart\<close>: no line of that
  product is left.
\<close>

theorem cart_one_line_per_product:
  "distinct (map id_p (runCartOps steps [])) \<and>
   (newQuantity < 1 \<longrightarrow>
      updateQuantity b prevCart productId newQuantity =
        ([], removeFromCart prevCart productId) \<and>
      productId \<notin> id_p ` set (snd (updateQuantity b prevCart productId newQuantity)))"
  by (auto simp: distinct_runCartOps updateQuantity_def removeFromCart_def)

theorem cart_one_line_per_product_witness:
  "runCartOps [(exampleBackend, [], AddToCart exampleProduct),
               (exampleBackend, [exampleProduct\<lparr>quantity := 1\<rparr>], AddToCart exampleProduct)] []
     = [exampleProduct\<lparr>quantity := 2\<rparr>] \<and>
   distinct (map id_p
     (runCartOps [(exampleBackend, [], AddToCart exampleProduct),
                  (exampleBackend, [exampleProduct\<lparr>quantity := 1\<rparr>], AddToCart exampleProduct)]
        [])) \<and>
   (0::int) < 1 \<and>
   snd (updateQuantity exampleBackend [exampleProduct] ''p1'' 0) = []"
  using cart_one_line_per_product
    [of "[(exampleBackend, [], AddToCart exampleProduct),
          (exampleBackend, [exampleProduct\<lparr>quantity := 1\<rparr>], AddToCart exampleProduct)]"
        0 exampleBackend "[exampleProduct]" "''p1''"]
  by (simp add: runCartOps_def addToCart_def addToCart_updater_def productService_getById_def
      exampleBackend_def exampleProduct_def currentCartQuantity_def removeFromCart_def)

section \<open>Checkout: the requests a checkout issues\<close>

lemma writes_append [simp]:
  "transactionWrites (xs @ ys) = transactionWrites xs @ transactionWrites ys"
  "inventoryReads (xs @ ys) = inventoryReads xs @ inventoryReads ys"
  "inventoryWrites (xs @ ys) = inventoryWrites xs @ inventoryWrites ys"
  by (simp_all add: transactionWrites_def inventoryReads_def inventoryWrites_def)

lemma writes_Cons [simp]:
  "transactionWrites (e # xs) = transactionWrite e @ transactionWrites xs"
  "inventoryReads (e # xs) = inventoryRead e @ inventoryReads xs"
  "inventoryWrites (e # xs) = inventoryWrite e @ inventoryWrites xs"
  by (simp_all add: transactionWrites_def inventoryReads_def inventoryWrites_def)

lemma writes_Nil [simp]:
  "transactionWrites [] = []" "inventoryReads [] = []" "inventoryWrites [] = []"
  by (simp_all add: transactionWrites_def inventoryReads_def inventoryWrites_def)

lemma applyInventoryUpdates_no_tx:
  "transactionWrites (fst (applyInventoryUpdates b tasks)) = []"
  by (induction b tasks rule: applyInventoryUpdates.induct) (auto split: prod.splits)

lemma applyInventoryUpdates_no_reads:
  "inventoryReads (fst (applyInventoryUpdates b tasks)) = []"
  by (induction b tasks rule: applyInventoryUpdates.induct) (auto split: prod.splits)

lemma reads_map_GetProductById:
  "inventoryReads (map (\<lambda>item. GetProductById (id_p item)) cartLines) = map id_p cartLines"
  "transactionWrites (map (\<lambda>item. GetProductById (id_p item)) cartLines) = []"
  "inventoryWrites (map (\<lambda>item. GetProductById (id_p item)) cartLines) = []"
  by (induction cartLines) auto

lemma inventoryUpdates_no_tx:
  "inventoryUpdates b cartLines = (effects, results, b') \<Longrightarrow> transactionWrites effects = []"
  using applyInventoryUpdates_no_tx
    [of b "map (\<lambda>item. (item, productService_getById b (id_p item))) cartLines"]
  by (auto simp: inventoryUpdates_def reads_map_GetProductById split: prod.splits)

lemma loadProducts_no_requests:
  assumes "loadProducts b st = (effects, st')"
  shows "transactionWrites effects = []" "inventoryReads effects = []"
    "inventoryWrites effects = []"
  using assms by (auto simp: loadProducts_def split: sum.splits)

lemma processTransaction_single_write:
  "transactionWrites (fst (processTransaction clk b st received)) =
     [transactionData clk st received]"
  by (auto simp: processTransaction_def Let_def
      split: prod.splits sum.splits option.splits
      dest: inventoryUpdates_no_tx loadProducts_no_requests(1))

lemma handleCheckout_written:
  "tx \<in> set (transactionWrites (fst (handleCheckout clk b st))) \<Longrightarrow>
   cart st \<noteq> [] \<and>
   (if paymentMethod st = Cash
    then \<exists>r. receivedAmount st = Some r \<and> r \<noteq> 0 \<and> calculateTotal (cart st) \<le> r \<and>
           tx = transactionData clk st r \<and>
           handleCheckout clk b st = processTransaction clk b st r
    else trim (referenceNumber st) \<noteq> [] \<and>
         tx = transactionData clk st (calculateTotal (cart st)) \<and>
         handleCheckout clk b st = processTransaction clk b st (calculateTotal (cart st)))"
  by (auto simp: handleCheckout_def Let_def processTransaction_single_write
      split: if_splits option.splits)

lemmas total_defs =
  calculateTotal_def calculateSubtotal_def calculateTax_def parsePrice_def getChange_def

lemma exampleSale_accepted:
  "handleCheckout clk b exampleSale = processTransaction clk b exampleSale 300"
  by (simp add: handleCheckout_def exampleSale_def exampleProduct_def total_defs)

section \<open>Checkout: totals of the transaction record\<close>

lemma foldl_subtotal:
  "foldl (\<lambda>total item. total + parsePrice (price item) * real_of_int (quantity item)) a cartLines =
   a + sum_list (map (\<lambda>item. price item * real_of_int (quantity item)) cartLines)"
  by (induction cartLines arbitrary: a) (auto simp: parsePrice_def)

lemma calculateSubtotal_sum:
  "calculateSubtotal cartLines =
   sum_list (map (\<lambda>item. price item * real_of_int (quantity item)) cartLines)"
  by (simp add: calculateSubtotal_def foldl_subtotal)

lemma ti_subtotal_transactionItem:
  "ti_subtotal \<circ> transactionItem = (\<lambda>item. price item * real_of_int (quantity item))"
  by (rule ext) (simp add: transactionItem_def parsePrice_def)

lemma foldl_plus_sum_list: "foldl (+) (a::real) xs = a + sum_list xs"
  by (induction xs arbitrary: a) auto

text \<open>
  Claim C5. A transaction record that \<open>handleCheckout\<close> writes (its cart is then not
  empty, and the record is the only one written) copies the cart line by line: each
  line's subtotal is its price times its quantity, the record's subtotal is the sum of
  the line subtotals (summed from \<open>0\<close> in cart order, as \<^verbatim>\<open>reduce\<close> does), its tax is
  the subtotal times \<open>0.12\<close>, and subtotal plus tax equals the total. The equations need
  no assumption on the signs of prices and quantities; each compares two occurrences of
  the same arithmetic expression of the source.
\<close>

theorem transaction_totals:
  assumes built: "tx \<in> set (transactionWrites (fst (handleCheckout clk b st)))"
  shows
    "cart st \<noteq> [] \<and>
     transactionWrites (fst (handleCheckout clk b st)) = [tx] \<and>
     map ti_productId (tx_items tx) = map id_p (cart st) \<and>
     map ti_price (tx_items tx) = map price (cart st) \<and>
     map ti_quantity (tx_items tx) = map quantity (cart st) \<and>
     map ti_subtotal (tx_items tx) =
       map (\<lambda>item. price item * real_of_int (quantity item)) (cart st) \<and>
     (\<forall>line \<in> set (tx_items tx). ti_subtotal line = ti_price line * real_of_int (ti_quantity line)) \<and>
     tx_subtotal tx = sum_list (map ti_subtotal (tx_items tx)) \<and>
     tx_subtotal tx = foldl (+) 0 (map ti_subtotal (tx_items tx)) \<and>
     tx_tax tx = tx_subtotal tx * (12 / 100) \<and>
     tx_subtotal tx + tx_tax tx = tx_total tx"
proof -
  from handleCheckout_written [OF built]
  obtain r where tx: "tx = transactionData clk st r"
    and run: "handleCheckout clk b st = processTransaction clk b st r"
    and nonempty: "cart st \<noteq> []"
    by (auto split: if_splits)
  have items: "tx_items tx = map transactionItem (cart st)"
    by (simp add: tx transactionData_def)
  have lines: "\<forall>line \<in> set (tx_items tx). ti_subtotal line = ti_price line * real_of_int (ti_quantity line)"
    by (auto simp: items transactionItem_def)
  have sub: "tx_subtotal tx = sum_list (map ti_subtotal (tx_items tx))"
    by (simp add: tx transactionData_def calculateSubtotal_sum ti_subtotal_transactionItem)
  have fold: "foldl (+) 0 (map ti_subtotal (tx_items tx)) = sum_list (map ti_subtotal (tx_items tx))"
    by (simp add: foldl_plus_sum_list)
  have tax: "tx_tax tx = tx_subtotal tx * (12 / 100)"
    by (simp add: tx transactionData_def calculateTax_def)
  have total: "tx_subtotal tx + tx_tax tx = tx_total tx"
    by (simp add: tx transactionData_def calculateTotal_def Let_def)
  have one: "transactionWrites (fst (handleCheckout clk b st)) = [tx]"
    by (simp add: run processTransaction_single_write tx)
  have fields: "map ti_productId (tx_items tx) = map id_p (cart st)"
    "map ti_price (tx_items tx) = map price (cart st)"
    "map ti_quantity (tx_items tx) = map quantity (cart st)"
    by (simp_all add: items transactionItem_def parsePrice_def comp_def)
  show ?thesis
    using nonempty one fields lines sub fold tax total
    by (simp add: items ti_subtotal_transactionItem)
qed


theorem transaction_totals_witness:
  "transactionWrites (fst (handleCheckout exampleClock exampleBackend exampleSale)) =
     [transactionData exampleClock exampleSale 300] \<and>
   map ti_subtotal (tx_items (transactionData exampleClock exampleSale 300)) = [200] \<and>
   tx_subtotal (transactionData exampleClock exampleSale 300) = 200 \<and>
   tx_tax (transactionData exampleClock exampleSale 300) = 24 \<and>
   tx_total (transactionData exampleClock exampleSale 300) = 224 \<and>
   tx_change (transactionData exampleClock exampleSale 300) = 76"
proof -
  have built: "transactionData exampleClock exampleSale 300
      \<in> set (transactionWrites (fst (handleCheckout exampleClock exampleBackend exampleSale)))"
    by (simp add: exampleSale_accepted processTransaction_single_write)
  show ?thesis
    using transaction_totals [OF built]
    by (simp add: transactionData_def transactionItem_def total_defs exampleSale_def
        exampleProduct_def)
qed

section \<open>Checkout: payment validation\<close>



lemma processTransaction_not_toast:
  "processTransaction clk b st received \<noteq> ([ToastError m], st', b')"
proof
  assume "processTransaction clk b st received = ([ToastError m], st', b')"
  then have "transactionWrites (fst (processTransaction clk b st received)) = []"
    by simp
  then show False
    by (simp add: processTransaction_single_write)
qed

lemma handleCheckout_cash:
  assumes "cart st \<noteq> []" "paymentMethod st = Cash"
  shows "handleCheckout clk b st =
     (case receivedAmount st of
        None \<Rightarrow> ([ToastError InsufficientPaymentAmount], st, b)
      | Some r \<Rightarrow>
          if r = 0 \<or> r < calculateTotal (cart st)
          then ([ToastError InsufficientPaymentAmount], st, b)
          else processTransaction clk b st r)"
  using assms by (simp add: handleCheckout_def Let_def)


text \<open>
  What the cash branch rejects, exactly: an empty amount field, the amount \<open>0\<close>
  (\<^verbatim>\<open>!received\<close>), and an amount below the total.
\<close>

lemma cash_rejected_iff:
  assumes "cart st \<noteq> []" "paymentMethod st = Cash"
  shows "handleCheckout clk b st = ([ToastError InsufficientPaymentAmount], st, b) \<longleftrightarrow>
    (\<forall>r. receivedAmount st = Some r \<longrightarrow> r = 0 \<or> r < calculateTotal (cart st))"
  by (auto simp: handleCheckout_cash [OF assms] processTransaction_not_toast
      split: option.splits)





section \<open>Checkout: failure to persist the transaction\<close>

lemma processTransaction_persist_failure:
  assumes "fault b WriteTransaction = Some error"
  shows "processTransaction clk b st received =
    ([CreateTransaction (transactionData clk st received), ToastError (classifyError error)],
     st\<lparr>isProcessing := False\<rparr>, b)"
  using assms by (simp add: processTransaction_def transactionService_create_def Let_def)

lemma handleCheckout_rejected_or_processed:
  "handleCheckout clk b st = ([ToastError CartIsEmpty], st, b) \<or>
   handleCheckout clk b st = ([ToastError InsufficientPaymentAmount], st, b) \<or>
   handleCheckout clk b st = ([ToastError EnterReferenceNumber], st, b) \<or>
   (\<exists>received. handleCheckout clk b st = processTransaction clk b st received)"
  by (auto simp: handleCheckout_def Let_def split: option.splits)

lemma classifyError_classes:
  "classifyError error = FailedToSaveTransaction \<or> classifyError error = CannotConnectToServer \<or>
   classifyError error = DatabaseError \<or> (\<exists>text. classifyError error = TransactionFailed text)"
  by (auto simp: classifyError_def split: option.splits)

text \<open>
  Claim C2. When the transaction store refuses the write, a checkout leaves the cart and
  the stores as they were, re-fetches no product and issues no product write; and if it
  got as far as the write, all it does is attempt that single write and show the error
  toast of the class \<open>classifyError\<close> gives the error (one of the four messages of the
  \<^verbatim>\<open>catch\<close> block), the state being the one before checkout with the processing flag
  off.
\<close>

theorem persist_failure_aborts:
  assumes failed: "fault b WriteTransaction = Some error"
  shows
    "cart (fst (snd (handleCheckout clk b st))) = cart st \<and>
     snd (snd (handleCheckout clk b st)) = b \<and>
     inventoryWrites (fst (handleCheckout clk b st)) = [] \<and>
     inventoryReads (fst (handleCheckout clk b st)) = [] \<and>
     (\<forall>tx. tx \<in> set (transactionWrites (fst (handleCheckout clk b st))) \<longrightarrow>
        handleCheckout clk b st =
          ([CreateTransaction tx, ToastError (classifyError error)],
           st\<lparr>isProcessing := False\<rparr>, b)) \<and>
     (classifyError error = FailedToSaveTransaction \<or>
      classifyError error = CannotConnectToServer \<or>
      classifyError error = DatabaseError \<or>
      (\<exists>text. classifyError error = TransactionFailed text))"
proof -
  have run: "\<And>received. processTransaction clk b st received =
      ([CreateTransaction (transactionData clk st received), ToastError (classifyError error)],
       st\<lparr>isProcessing := False\<rparr>, b)"
    by (rule processTransaction_persist_failure [OF failed])
  from handleCheckout_rejected_or_processed [of clk b st]
  have frame: "cart (fst (snd (handleCheckout clk b st))) = cart st \<and>
     snd (snd (handleCheckout clk b st)) = b \<and>
     inventoryWrites (fst (handleCheckout clk b st)) = [] \<and>
     inventoryReads (fst (handleCheckout clk b st)) = []"
    by (auto simp: run)
  have attempted: "\<forall>tx. tx \<in> set (transactionWrites (fst (handleCheckout clk b st))) \<longrightarrow>
        handleCheckout clk b st =
          ([CreateTransaction tx, ToastError (classifyError error)],
           st\<lparr>isProcessing := False\<rparr>, b)"
    using handleCheckout_rejected_or_processed [of clk b st]
    by (auto simp: run)
  show ?thesis
    using frame attempted classifyError_classes [of error] by blast
qed

lemma offline_fault: "fault offlineBackend WriteTransaction = Some (Some ''TypeError: Failed to fetch'')"
  by (simp add: offlineBackend_def)

theorem persist_failure_aborts_witness:
  "fault offlineBackend WriteTransaction = Some (Some ''TypeError: Failed to fetch'') \<and>
   handleCheckout exampleClock offlineBackend exampleSale =
     ([CreateTransaction (transactionData exampleClock exampleSale 300),
       ToastError CannotConnectToServer],
      exampleSale\<lparr>isProcessing := False\<rparr>, offlineBackend)"
proof -
  have built: "transactionData exampleClock exampleSale 300
      \<in> set (transactionWrites (fst (handleCheckout exampleClock offlineBackend exampleSale)))"
    by (simp add: exampleSale_accepted processTransaction_single_write)
  have classified: "classifyError (Some ''TypeError: Failed to fetch'') = CannotConnectToServer"
    by (simp add: classifyError_def)
  show ?thesis
    using persist_failure_aborts [OF offline_fault, of exampleClock exampleSale] built classified
    by (simp add: offline_fault)
qed

section \<open>Checkout: inventory decrements\<close>

lemma productService_update_stored:
  assumes "fault b (WriteProduct i) = None" "map_of (productDocs b) i = Some d"
  shows "fst (productService_update b i payload) = Inr (payload\<lparr>id_p := i\<rparr>) \<and>
    map_of (productDocs (snd (productService_update b i payload))) i = Some payload"
  using assms by (simp add: productService_update_def update_conv')

lemma getById_transactionDocs [simp]:
  "productService_getById (b\<lparr>transactionDocs := docs\<rparr>) i = productService_getById b i"
  by (simp add: productService_getById_def split: option.splits)

lemma applyInventoryUpdates_writes:
  "inventoryWrites (fst (applyInventoryUpdates b tasks)) =
   concat (map (\<lambda>(item, answer).
       case answer of
         Inl error \<Rightarrow> []
       | Inr currentProduct \<Rightarrow> [(id_p item, decrementPayload item currentProduct)]) tasks)"
  by (induction b tasks rule: applyInventoryUpdates.induct) (auto split: prod.splits)

lemma inventoryUpdates_reads:
  "inventoryUpdates b cartLines = (effects, results, b') \<Longrightarrow>
   inventoryReads effects = map id_p cartLines"
  using applyInventoryUpdates_no_reads
    [of b "map (\<lambda>item. (item, productService_getById b (id_p item))) cartLines"]
  by (auto simp: inventoryUpdates_def reads_map_GetProductById split: prod.splits)

lemma inventoryUpdates_writes:
  "inventoryUpdates b cartLines = (effects, results, b') \<Longrightarrow>
   inventoryWrites effects =
   concat (map (\<lambda>item.
       case productService_getById b (id_p item) of
         Inl error \<Rightarrow> []
       | Inr currentProduct \<Rightarrow> [(id_p item, decrementPayload item currentProduct)]) cartLines)"
  using applyInventoryUpdates_writes
    [of b "map (\<lambda>item. (item, productService_getById b (id_p item))) cartLines"]
  by (auto simp: inventoryUpdates_def reads_map_GetProductById comp_def split: prod.splits)

lemma inventoryUpdates_order:
  assumes "inventoryUpdates b cartLines = (effects, results, b')"
  shows "\<exists>writes. effects = map (\<lambda>item. GetProductById (id_p item)) cartLines @ writes \<and>
    inventoryReads writes = [] \<and> transactionWrites writes = []"
proof -
  let ?tasks = "map (\<lambda>item. (item, productService_getById b (id_p item))) cartLines"
  have "effects = map (\<lambda>item. GetProductById (id_p item)) cartLines @
      fst (applyInventoryUpdates b ?tasks)"
    using assms by (auto simp: inventoryUpdates_def split: prod.splits)
  then show ?thesis
    using applyInventoryUpdates_no_reads [of b ?tasks] applyInventoryUpdates_no_tx [of b ?tasks]
    by blast
qed

lemma processTransaction_persisted:
  assumes persisted: "fault b WriteTransaction = None"
  shows "inventoryReads (fst (processTransaction clk b st received)) = map id_p (cart st)"
    and "inventoryWrites (fst (processTransaction clk b st received)) =
      concat (map (\<lambda>item.
        case productService_getById b (id_p item) of
          Inl error \<Rightarrow> []
        | Inr currentProduct \<Rightarrow> [(id_p item, decrementPayload item currentProduct)]) (cart st))"
    and "\<exists>later. fst (processTransaction clk b st received) =
        CreateTransaction (transactionData clk st received) #
        map (\<lambda>item. GetProductById (id_p item)) (cart st) @ later \<and>
      inventoryReads later = [] \<and> transactionWrites later = []"
proof -
  define tx where "tx = transactionData clk st received"
  define b1 where "b1 = b\<lparr>transactionDocs := AList.update (tx_id tx) tx (transactionDocs b)\<rparr>"
  obtain effects results b2 where inv: "inventoryUpdates b1 (cart st) = (effects, results, b2)"
    by (cases "inventoryUpdates b1 (cart st)") auto
  obtain loadEffects st1 where load: "loadProducts b2 st = (loadEffects, st1)"
    by (cases "loadProducts b2 st") auto
  have reads: "inventoryReads effects = map id_p (cart st)"
    by (rule inventoryUpdates_reads [OF inv])
  have writes: "inventoryWrites effects =
      concat (map (\<lambda>item.
        case productService_getById b (id_p item) of
          Inl error \<Rightarrow> []
        | Inr currentProduct \<Rightarrow> [(id_p item, decrementPayload item currentProduct)]) (cart st))"
    using inventoryUpdates_writes [OF inv] by (simp add: b1_def)
  have fst_eq: "fst (processTransaction clk b st received) =
      (case firstRejection results of
         Some error \<Rightarrow> CreateTransaction tx # effects @ [ToastError (classifyError error)]
       | None \<Rightarrow> CreateTransaction tx # effects @ loadEffects @ [ToastSuccess TransactionCompleted])"
    using persisted inv load
    by (simp add: processTransaction_def transactionService_create_def Let_def tx_def b1_def
        split: option.splits)
  show "inventoryReads (fst (processTransaction clk b st received)) = map id_p (cart st)"
    using reads loadProducts_no_requests(2) [OF load]
    by (simp add: fst_eq split: option.splits)
  show "inventoryWrites (fst (processTransaction clk b st received)) =
      concat (map (\<lambda>item.
        case productService_getById b (id_p item) of
          Inl error \<Rightarrow> []
        | Inr currentProduct \<Rightarrow> [(id_p item, decrementPayload item currentProduct)]) (cart st))"
    using writes loadProducts_no_requests(3) [OF load]
    by (simp add: fst_eq split: option.splits)
  from inventoryUpdates_order [OF inv]
  obtain updates where order: "effects = map (\<lambda>item. GetProductById (id_p item)) (cart st) @ updates"
    "inventoryReads updates = []" "transactionWrites updates = []"
    by blast
  show "\<exists>later. fst (processTransaction clk b st received) =
        CreateTransaction (transactionData clk st received) #
        map (\<lambda>item. GetProductById (id_p item)) (cart st) @ later \<and>
      inventoryReads later = [] \<and> transactionWrites later = []"
  proof (cases "firstRejection results")
    case None
    have "fst (processTransaction clk b st received) =
        CreateTransaction tx # map (\<lambda>item. GetProductById (id_p item)) (cart st) @
          (updates @ loadEffects @ [ToastSuccess TransactionCompleted])"
      by (simp add: fst_eq None order)
    moreover have "inventoryReads (updates @ loadEffects @ [ToastSuccess TransactionCompleted]) = []"
      "transactionWrites (updates @ loadEffects @ [ToastSuccess TransactionCompleted]) = []"
      using order loadProducts_no_requests(1,2) [OF load] by simp_all
    ultimately show ?thesis
      unfolding tx_def by blast
  next
    case (Some error)
    have "fst (processTransaction clk b st received) =
        CreateTransaction tx # map (\<lambda>item. GetProductById (id_p item)) (cart st) @
          (updates @ [ToastError (classifyError error)])"
      by (simp add: fst_eq Some order)
    moreover have "inventoryReads (updates @ [ToastError (classifyError error)]) = []"
      "transactionWrites (updates @ [ToastError (classifyError error)]) = []"
      using order by simp_all
    ultimately show ?thesis
      unfolding tx_def by blast
  qed
qed

text \<open>
  Claim C4. A checkout whose transaction is persisted issues, after that write, one
  re-fetch per cart line, in cart order, and then one product write per line whose
  re-fetch answered: the re-fetched product with its quantity replaced by
  \<open>max 0 (current - requested)\<close>. So no quantity written is negative, and when every
  re-fetch answers there is exactly one write per cart line. (Cart lines have distinct
  product ids, so the tasks of one checkout touch different documents.)
\<close>

theorem inventory_decrements:
  assumes persisted: "fault b WriteTransaction = None"
    and built: "tx \<in> set (transactionWrites (fst (handleCheckout clk b st)))"
  shows
    "(\<exists>later. fst (handleCheckout clk b st) =
         CreateTransaction tx # map (\<lambda>item. GetProductById (id_p item)) (cart st) @ later \<and>
       inventoryReads later = [] \<and> transactionWrites later = []) \<and>
     inventoryReads (fst (handleCheckout clk b st)) = map id_p (cart st) \<and>
     inventoryWrites (fst (handleCheckout clk b st)) =
       concat (map (\<lambda>item.
         case productService_getById b (id_p item) of
           Inl error \<Rightarrow> []
         | Inr currentProduct \<Rightarrow>
             [(id_p item,
               currentProduct\<lparr>quantity := max 0 (quantity currentProduct - quantity item)\<rparr>)])
         (cart st)) \<and>
     (\<forall>write \<in> set (inventoryWrites (fst (handleCheckout clk b st))). 0 \<le> quantity (snd write)) \<and>
     ((\<forall>item \<in> set (cart st). \<exists>currentProduct.
          productService_getById b (id_p item) = Inr currentProduct) \<longrightarrow>
        map fst (inventoryWrites (fst (handleCheckout clk b st))) = map id_p (cart st))"
proof -
  from handleCheckout_written [OF built]
  obtain r where run: "handleCheckout clk b st = processTransaction clk b st r"
    and tx: "tx = transactionData clk st r"
    by (auto split: if_splits)
  have order: "\<exists>later. fst (handleCheckout clk b st) =
         CreateTransaction tx # map (\<lambda>item. GetProductById (id_p item)) (cart st) @ later \<and>
       inventoryReads later = [] \<and> transactionWrites later = []"
    unfolding run tx by (rule processTransaction_persisted(3) [OF persisted])
  let ?writes = "\<lambda>cartLines. concat (map (\<lambda>item.
         case productService_getById b (id_p item) of
           Inl error \<Rightarrow> []
         | Inr currentProduct \<Rightarrow>
             [(id_p item,
               currentProduct\<lparr>quantity := max 0 (quantity currentProduct - quantity item)\<rparr>)])
         cartLines)"
  have reads: "inventoryReads (fst (handleCheckout clk b st)) = map id_p (cart st)"
    by (simp add: run processTransaction_persisted(1) [OF persisted])
  have writes: "inventoryWrites (fst (handleCheckout clk b st)) = ?writes (cart st)"
    by (simp add: run processTransaction_persisted(2) [OF persisted] decrementPayload_def Let_def
        cong: sum.case_cong)
  have nonneg: "\<forall>write \<in> set (?writes cartLines). 0 \<le> quantity (snd write)" for cartLines :: "product list"
    by (induction cartLines) (auto split: sum.splits)
  have all: "(\<forall>item \<in> set cartLines. \<exists>currentProduct.
          productService_getById b (id_p item) = Inr currentProduct) \<longrightarrow>
        map fst (?writes cartLines) = map id_p cartLines" for cartLines :: "product list"
    by (induction cartLines) auto
  show ?thesis
    using order reads nonneg [of "cart st"] all [of "cart st"] unfolding writes by blast
qed

theorem inventory_decrements_witness:
  "fault lowStockBackend WriteTransaction = None \<and>
   inventoryReads (fst (handleCheckout exampleClock lowStockBackend exampleSale)) = [''p1''] \<and>
   inventoryWrites (fst (handleCheckout exampleClock lowStockBackend exampleSale)) =
     [(''p1'', exampleProduct\<lparr>quantity := 0\<rparr>)]"
proof -
  have persisted: "fault lowStockBackend WriteTransaction = None"
    by (simp add: lowStockBackend_def)
  have built: "transactionData exampleClock exampleSale 300
      \<in> set (transactionWrites (fst (handleCheckout exampleClock lowStockBackend exampleSale)))"
    by (simp add: exampleSale_accepted processTransaction_single_write)
  have fetched: "productService_getById lowStockBackend ''p1'' = Inr (exampleProduct\<lparr>quantity := 1\<rparr>)"
    by (simp add: productService_getById_def lowStockBackend_def exampleProduct_def)
  show ?thesis
    using inventory_decrements [OF persisted built] persisted fetched
    by (simp add: exampleSale_def exampleProduct_def)
qed

section \<open>Barcode lookup: which product a token resolves to\<close>

lemma findProduct_find:
  "findProduct ps code = find (\<lambda>p. barcode p = code \<or> id_p p = code) ps"
proof -
  have "matchesBarcode code = (\<lambda>p. barcode p = code \<or> id_p p = code)"
    by (rule ext) (auto simp: matchesBarcode_def)
  then show ?thesis
    by (simp add: findProduct_def)
qed

lemma find_or_no_id:
  "\<forall>p \<in> set ps. id_p p \<noteq> code \<Longrightarrow>
   find (\<lambda>p. barcode p = code \<or> id_p p = code) ps = find (\<lambda>p. barcode p = code) ps"
  by (induction ps) auto

lemma find_or_no_barcode:
  "\<forall>p \<in> set ps. barcode p \<noteq> code \<Longrightarrow>
   find (\<lambda>p. barcode p = code \<or> id_p p = code) ps = find (\<lambda>p. id_p p = code) ps"
  by (induction ps) auto

text \<open>
  Claim C8, as stated, fails. In the catalog \<open>[idMatchProduct, barcodeMatchProduct]\<close> the
  token \<open>ABCD\<close> is the id of the first product and the barcode of the second. A barcode
  match exists, so the claim selects the second product; \<^verbatim>\<open>products.find\<close> tests
  barcode and id of each product in one pass and returns the first.
\<close>

theorem lookup_barcode_first_counterexample:
  "findProduct [idMatchProduct, barcodeMatchProduct] ''ABCD'' = Some idMatchProduct \<and>
   spec_lookup [idMatchProduct, barcodeMatchProduct] ''ABCD'' = Some barcodeMatchProduct \<and>
   barcode idMatchProduct \<noteq> ''ABCD'' \<and>
   barcode barcodeMatchProduct = ''ABCD'' \<and>
   findProduct [idMatchProduct, barcodeMatchProduct] ''ABCD'' \<noteq>
     spec_lookup [idMatchProduct, barcodeMatchProduct] ''ABCD''"
  by (simp add: findProduct_def matchesBarcode_def spec_lookup_def idMatchProduct_def
      barcodeMatchProduct_def)

text \<open>
  Claim C8, amended. Resolution selects the first product, in catalog order, whose
  barcode equals the token or whose id equals the token: no product is selected exactly
  when none matches either way, and the selected product is the one at the least index
  that matches. This is the barcode-first lookup of the claim whenever no product's id
  equals the token, or no product's barcode does.
\<close>

theorem lookup_first_match:
  "(findProduct ps code = None \<longleftrightarrow> (\<forall>p \<in> set ps. barcode p \<noteq> code \<and> id_p p \<noteq> code)) \<and>
   (\<forall>p. findProduct ps code = Some p \<longleftrightarrow>
      (\<exists>i < length ps. ps ! i = p \<and> (barcode p = code \<or> id_p p = code) \<and>
         (\<forall>j < i. barcode (ps ! j) \<noteq> code \<and> id_p (ps ! j) \<noteq> code))) \<and>
   ((\<forall>p \<in> set ps. id_p p \<noteq> code) \<or> (\<forall>p \<in> set ps. barcode p \<noteq> code) \<longrightarrow>
      findProduct ps code = spec_lookup ps code)"
proof (intro conjI allI impI)
  show "findProduct ps code = None \<longleftrightarrow> (\<forall>p \<in> set ps. barcode p \<noteq> code \<and> id_p p \<noteq> code)"
    by (auto simp: findProduct_find find_None_iff)
next
  fix p
  show "findProduct ps code = Some p \<longleftrightarrow>
      (\<exists>i < length ps. ps ! i = p \<and> (barcode p = code \<or> id_p p = code) \<and>
         (\<forall>j < i. barcode (ps ! j) \<noteq> code \<and> id_p (ps ! j) \<noteq> code))"
    unfolding findProduct_find find_Some_iff by auto
next
  assume "(\<forall>p \<in> set ps. id_p p \<noteq> code) \<or> (\<forall>p \<in> set ps. barcode p \<noteq> code)"
  then show "findProduct ps code = spec_lookup ps code"
  proof
    assume no_id: "\<forall>p \<in> set ps. id_p p \<noteq> code"
    then have "find (\<lambda>p. id_p p = code) ps = None"
      by (simp add: find_None_iff)
    with no_id show ?thesis
      by (simp add: findProduct_find spec_lookup_def find_or_no_id split: option.splits)
  next
    assume no_barcode: "\<forall>p \<in> set ps. barcode p \<noteq> code"
    then have "find (\<lambda>p. barcode p = code) ps = None"
      by (simp add: find_None_iff)
    with no_barcode show ?thesis
      by (simp add: findProduct_find spec_lookup_def find_or_no_barcode)
  qed
qed

theorem lookup_first_match_witness:
  "findProduct [idMatchProduct, barcodeMatchProduct] ''ABCD'' = Some idMatchProduct \<and>
   findProduct [idMatchProduct, barcodeMatchProduct] ''1111'' = Some idMatchProduct \<and>
   spec_lookup [idMatchProduct, barcodeMatchProduct] ''1111'' = Some idMatchProduct \<and>
   findProduct [idMatchProduct, barcodeMatchProduct] ''9999'' = None"
  using lookup_first_match [of "[idMatchProduct, barcodeMatchProduct]" "''ABCD''"]
    lookup_first_match [of "[idMatchProduct, barcodeMatchProduct]" "''1111''"]
    lookup_first_match [of "[idMatchProduct, barcodeMatchProduct]" "''9999''"]
  by (simp add: findProduct_def matchesBarcode_def spec_lookup_def idMatchProduct_def
      barcodeMatchProduct_def)

section \<open>Router: duplicate suppression\<close>









section \<open>Decoder: commit\<close>

lemma global_decoder_enter:
  assumes "\<not> 0 < suspendedCountRef st" "\<not> isEditableTarget (target event)"
    "\<not> isProcessingRef st" "key event = ''Enter''"
  shows "handleInventoryKeyDown st event =
      (if 4 \<le> length (trim (bufferRef st)) then Some (trim (bufferRef st)) else None,
       st\<lparr>timeoutRef := None, bufferRef := []\<rparr>)"
    and "pathname st \<noteq> ''/inventory'' \<Longrightarrow> handleKeyDown st event =
      (if 4 \<le> length (trim (bufferRef st)) then Some (trim (bufferRef st)) else None,
       st\<lparr>timeoutRef := None, bufferRef := []\<rparr>)"
  using assms by (simp_all add: handleInventoryKeyDown_def handleKeyDown_def Let_def)

lemma global_decoder_timer:
  "fst (autoSubmit st) =
     (if 4 \<le> length (trim (bufferRef st)) then Some (trim (bufferRef st)) else None) \<and>
   bufferRef (snd (autoSubmit st)) = []"
  by (simp add: autoSubmit_def Let_def)

lemma form_decoder_timer:
  "barcodeBufferRef (snd (barcodeTimeoutFired st)) = [] \<and>
   (fst (barcodeTimeoutFired st) \<noteq> [] \<longleftrightarrow> 6 < length (barcodeBufferRef st))"
  by (simp add: barcodeTimeoutFired_def barcodeUpdater_def)

lemma form_decoder_enter:
  assumes "isScanningBarcode st" "tagName (target event) \<noteq> ''INPUT''"
    "tagName (target event) \<noteq> ''TEXTAREA''" "key event = ''Enter''"
  shows "fst (handleBarcodeKeyDown st event) =
      (if 6 < length (barcodeBufferRef st) then [ToastSuccess BarcodeScannedSuccessfully] else [])"
    and "barcodeBufferRef (snd (handleBarcodeKeyDown st event)) =
      (if 6 < length (barcodeBufferRef st) then [] else barcodeBufferRef st)"
    and "\<not> barcodeTimeoutRef (snd (handleBarcodeKeyDown st event))"
  using assms by (simp_all add: handleBarcodeKeyDown_def barcodeUpdater_def Let_def)

text \<open>
  Claim C7 fails on the code in the product form's decoder. The two global decoders and
  every timer callback emit only when the buffer meets the minimum and clear the buffer
  in both cases (the lemmas above). An Enter
  keystroke in the product form with a buffer of at most six characters emits nothing
  but leaves the buffer in place, with no timer pending: with \<open>123\<close> buffered the buffer
  is still \<open>123\<close> afterwards, whereas the form's own timer callback clears it. The
  characters are not discarded: the keys \<open>4567\<close> typed next are appended to them, and the
  buffer then reads \<open>1234567\<close>.
\<close>

theorem form_enter_keeps_short_buffer:
  "handleBarcodeKeyDown exampleForm \<lparr>key = ''Enter'', target = bodyTarget\<rparr> =
     ([], exampleForm\<lparr>barcodeTimeoutRef := False\<rparr>) \<and>
   barcodeBufferRef
     (snd (handleBarcodeKeyDown exampleForm \<lparr>key = ''Enter'', target = bodyTarget\<rparr>)) = ''123'' \<and>
   barcodeBufferRef (snd (barcodeTimeoutFired exampleForm)) = [] \<and>
   barcodeBufferRef
     (foldl (\<lambda>st k. snd (handleBarcodeKeyDown st \<lparr>key = k, target = bodyTarget\<rparr>)) exampleForm
        [''Enter'', ''4'', ''5'', ''6'', ''7'']) = ''1234567''"
  by (simp add: handleBarcodeKeyDown_def barcodeTimeoutFired_def exampleForm_def bodyTarget_def
      isAlnumKey_def)

section \<open>Decoder: ignored keystrokes\<close>

lemma filtered_keystroke_ignored:
  "0 < suspendedCountRef st \<or> isEditableTarget (target event) \<Longrightarrow>
   handleKeyDown st event = (None, st) \<and> handleInventoryKeyDown st event = (None, st)"
  by (auto simp: handleKeyDown_def handleInventoryKeyDown_def)

lemma unaccepted_key_keeps_buffer:
  assumes "\<not> isBarcodeKey (key event)" "key event \<noteq> ''Enter''"
  shows "fst (handleKeyDown st event) = None \<and>
    bufferRef (snd (handleKeyDown st event)) = bufferRef st \<and>
    fst (handleInventoryKeyDown st event) = None \<and>
    bufferRef (snd (handleInventoryKeyDown st event)) = bufferRef st"
  using assms by (simp add: handleKeyDown_def handleInventoryKeyDown_def Let_def)

text \<open>
  Claim C9 fails on the code in its second half. A keystroke at an editable target or
  under suspension changes nothing, and a one-character key outside the accepted set
  emits nothing and leaves the buffer (the two lemmas above); but it reaches
  \<^verbatim>\<open>clearTimeout\<close>, which stands before the tests of the key. With \<open>12345\<close> buffered and the
  150 ms timer pending on \<^verbatim>\<open>/pos\<close>, the key \<open>!\<close> cancels the timer and arms none (so does
  a space on \<^verbatim>\<open>/inventory\<close>): the buffer is never auto-submitted. A key with a name of
  several characters, such as Shift, returns before \<^verbatim>\<open>clearTimeout\<close> and leaves the
  timer pending.
\<close>

theorem unaccepted_key_cancels_timer:
  "bufferRef exampleScanner = ''12345'' \<and> timeoutRef exampleScanner = Some AutoSubmit \<and>
   handleKeyDown exampleScanner \<lparr>key = ''!'', target = bodyTarget\<rparr> =
     (None, exampleScanner\<lparr>timeoutRef := None\<rparr>) \<and>
   handleInventoryKeyDown (exampleScanner\<lparr>pathname := ''/inventory''\<rparr>)
       \<lparr>key = '' '', target = bodyTarget\<rparr> =
     (None, exampleScanner\<lparr>pathname := ''/inventory'', timeoutRef := None\<rparr>) \<and>
   handleKeyDown exampleScanner \<lparr>key = ''Shift'', target = bodyTarget\<rparr> = (None, exampleScanner) \<and>
   timeoutFired 2000 (snd (handleKeyDown exampleScanner \<lparr>key = ''!'', target = bodyTarget\<rparr>)) =
     ([], exampleScanner\<lparr>timeoutRef := None\<rparr>)"
  by (simp add: handleKeyDown_def handleInventoryKeyDown_def timeoutFired_def exampleScanner_def
      bodyTarget_def isEditableTarget_def isBarcodeKey_def isAlnumKey_def)

end
